theory Spec2Isabelle
  imports Main "HOL-Library.List_Lexorder" "HOL-Library.Char_ord" "HOL-Library.AList"
begin

section \<open>Python values as the audit tool sees them\<close>

text \<open>
  The tool never computes with the property values it reads from the database. It asks
  three things of a value: whether it is \<^verbatim>\<open>None\<close>, the name of its runtime type
  (\<^verbatim>\<open>type(v).__name__\<close>) and its text (\<^verbatim>\<open>str(v)\<close>). Strings, integers and
  booleans are kept as they are; a float, a list and a map are kept by their \<^verbatim>\<open>str\<close>
  text; any other driver value (temporal, spatial, bytes) is kept by its type name and
  its \<^verbatim>\<open>str\<close> text.
\<close>

datatype pyval =
    PNone
  | PStr string
  | PInt int
  | PFloat string
  | PBool bool
  | PList string
  | PMap string
  | POther string string

fun type_name :: "pyval \<Rightarrow> string" where
  "type_name PNone = ''NoneType''"
| "type_name (PStr s) = ''str''"
| "type_name (PInt i) = ''int''"
| "type_name (PFloat t) = ''float''"
| "type_name (PBool b) = ''bool''"
| "type_name (PList t) = ''list''"
| "type_name (PMap t) = ''dict''"
| "type_name (POther tn t) = tn"

definition digit_char :: "nat \<Rightarrow> char" where
  "digit_char d = ''0123456789'' ! d"

function str_nat :: "nat \<Rightarrow> string" where
  "str_nat n = (if n < 10 then [digit_char n] else str_nat (n div 10) @ [digit_char (n mod 10)])"
  by pat_completeness auto
termination
  by (relation "measure id") auto

fun py_str :: "pyval \<Rightarrow> string" where
  "py_str PNone = ''None''"
| "py_str (PStr s) = s"
| "py_str (PInt i) = (if i < 0 then ''-'' @ str_nat (nat (- i)) else str_nat (nat i))"
| "py_str (PFloat t) = t"
| "py_str (PBool b) = (if b then ''True'' else ''False'')"
| "py_str (PList t) = t"
| "py_str (PMap t) = t"
| "py_str (POther tn t) = t"

text \<open>A property bag is a Python \<^verbatim>\<open>dict\<close> with string keys, in insertion order.\<close>

type_synonym pydict = "(string \<times> pyval) list"

section \<open>Report generator: \<^verbatim>\<open>escape_markdown\<close>\<close>

definition bs :: char where
  "bs = CHR 0x5C"

definition escape_chars :: "char list" where
  "escape_chars =
     [CHR ''|'', CHR ''_'', CHR ''*'', CHR 0x60, CHR ''['', CHR '']'', CHR ''('', CHR '')'',
      CHR ''#'', CHR ''+'', CHR ''-'', CHR ''.'', CHR ''!'']"

text \<open>\<^verbatim>\<open>s.replace(old, new)\<close> for a pattern \<^verbatim>\<open>old\<close> of one character.\<close>

primrec replace_chr :: "char \<Rightarrow> string \<Rightarrow> string \<Rightarrow> string" where
  "replace_chr old new [] = []"
| "replace_chr old new (x # xs) =
     (if x = old then new @ replace_chr old new xs else x # replace_chr old new xs)"

text \<open>
  \<^verbatim>\<open>
  if text is None: return ""
  result = str(text)
  for char in escape_chars:
      result = result.replace(char, '\\' + char)
  return result
  \<close>
\<close>

definition escape_markdown :: "pyval \<Rightarrow> string" where
  "escape_markdown text =
     (if text = PNone then []
      else foldl (\<lambda>result c. replace_chr c [bs, c] result) (py_str text) escape_chars)"

text \<open>
  The escaping rule in the specification's words: each character is looked at on its own,
  and one of the thirteen gets the marker in front of it.
\<close>

definition escape_one :: "char \<Rightarrow> string" where
  "escape_one c = (if c \<in> set escape_chars then [bs, c] else [c])"

definition escape_each :: "string \<Rightarrow> string" where
  "escape_each s = concat (map escape_one s)"

section \<open>The query executor\<close>

text \<open>
  \<^verbatim>\<open>Neo4jConnector\<close> is a black box with two operations, \<^verbatim>\<open>execute_query\<close> (all rows)
  and \<^verbatim>\<open>execute_single_result\<close> (the first row or \<^verbatim>\<open>None\<close>); either may raise. One run
  is modelled against a database that does not change meanwhile, so what a query returns
  is a function of its text and parameters.

  A row is a \<^verbatim>\<open>dict\<close> from column names to cells. A cell is a plain value, a property bag
  (the \<^verbatim>\<open>properties(n)\<close> column, or a node returned whole) or a list of strings (the
  \<^verbatim>\<open>labels(n)\<close> column).
\<close>

datatype colval = Val pyval | Bag pydict | Labels "string list"

type_synonym row = "(string \<times> colval) list"

text \<open>
  \<^verbatim>\<open>DbError\<close> is any exception the executor raises, with its message; \<^verbatim>\<open>KeyError\<close> is
  Python's, with the missing key. \<^verbatim>\<open>IllTyped\<close> marks the boundary of the model: the executor
  returned, in the named column, a cell of another kind than the query's column has (a
  label that is not a string, a property bag that is not a map). Nothing is claimed about
  such runs.
\<close>

datatype error = DbError string | KeyError string | IllTyped string

fun err_str :: "error \<Rightarrow> string" where
  "err_str (DbError m) = m"
| "err_str (KeyError k) = [CHR 0x27] @ k @ [CHR 0x27]"
| "err_str (IllTyped c) = c"

record executor =
  execute_query :: "string \<Rightarrow> row \<Rightarrow> error + row list"
  execute_single_result :: "string \<Rightarrow> row \<Rightarrow> error + row option"

fun ebind :: "error + 'a \<Rightarrow> ('a \<Rightarrow> error + 'b) \<Rightarrow> error + 'b" where
  "ebind (Inl e) f = Inl e"
| "ebind (Inr x) f = f x"

text \<open>A comprehension or loop whose body may raise: it stops at the first exception.\<close>

fun emap :: "('a \<Rightarrow> error + 'b) \<Rightarrow> 'a list \<Rightarrow> error + 'b list" where
  "emap f [] = Inr []"
| "emap f (x # xs) = ebind (f x) (\<lambda>y. ebind (emap f xs) (\<lambda>ys. Inr (y # ys)))"

text \<open>\<^verbatim>\<open>d[k]\<close> on a \<^verbatim>\<open>dict\<close>.\<close>

definition getitem :: "row \<Rightarrow> string \<Rightarrow> error + colval" where
  "getitem d k = (case map_of d k of None \<Rightarrow> Inl (KeyError k) | Some v \<Rightarrow> Inr v)"

text \<open>The truth value of an \<^verbatim>\<open>Optional[Dict]\<close>: \<^verbatim>\<open>None\<close> and the empty \<^verbatim>\<open>dict\<close> are false.\<close>

fun truthy :: "row option \<Rightarrow> bool" where
  "truthy None = False"
| "truthy (Some d) = (d \<noteq> [])"

text \<open>\<^verbatim>\<open>r[k] if r else default\<close>.\<close>

fun item_or :: "row option \<Rightarrow> string \<Rightarrow> colval \<Rightarrow> error + colval" where
  "item_or None k dflt = Inr dflt"
| "item_or (Some d) k dflt = (if d \<noteq> [] then getitem d k else Inr dflt)"

fun as_str :: "string \<Rightarrow> colval \<Rightarrow> error + string" where
  "as_str col (Val (PStr s)) = Inr s"
| "as_str col c = Inl (IllTyped col)"

fun as_labels :: "string \<Rightarrow> colval \<Rightarrow> error + string list" where
  "as_labels col (Labels ls) = Inr ls"
| "as_labels col c = Inl (IllTyped col)"

fun as_bag :: "string \<Rightarrow> colval \<Rightarrow> error + pydict" where
  "as_bag col (Bag b) = Inr b"
| "as_bag col c = Inl (IllTyped col)"

section \<open>Data extractor\<close>

definition nl :: char where
  "nl = CHR 0x0A"

definition SAMPLE_LIMIT :: nat where
  "SAMPLE_LIMIT = 10"

definition version_query :: "string" where
  \<open>version_query =
     ''CALL dbms.components() YIELD name, versions WHERE name = 'Neo4j Kernel' RETURN versions[0] AS version''\<close>

definition db_name_query :: "string" where
  \<open>db_name_query =
     ''CALL db.info() YIELD name RETURN name''\<close>

definition size_query :: "string" where
  \<open>size_query =
     [nl] @ ''        CALL dbms.database.size() YIELD database, totalSize '' @ [nl] @
       ''        WHERE database = $db_name'' @ [nl] @ ''        RETURN totalSize'' @ [nl] @
       ''        ''\<close>

definition labels_query :: "string" where
  \<open>labels_query =
     ''CALL db.labels() YIELD label RETURN label ORDER BY label''\<close>

definition rel_types_query :: "string" where
  \<open>rel_types_query =
     ''CALL db.relationshipTypes() YIELD relationshipType RETURN relationshipType ORDER BY relationshipType''\<close>

definition node_props_query :: "string \<Rightarrow> string" where
  \<open>node_props_query label =
     [nl] @ ''        MATCH (n:`'' @ label @ ''`) '' @ [nl] @
       ''        RETURN properties(n) AS props'' @ [nl] @ ''        LIMIT 1'' @ [nl] @
       ''        ''\<close>

definition node_count_query :: "string \<Rightarrow> string" where
  \<open>node_count_query label =
     ''MATCH (n:`'' @ label @ ''`) RETURN count(n) as count''\<close>

definition rel_pattern_query :: "string \<Rightarrow> string" where
  \<open>rel_pattern_query rel_type =
     [nl] @ ''            MATCH (start)-[r:`'' @ rel_type @ ''`]->(end)'' @ [nl] @
       ''            RETURN '' @ [nl] @ ''                labels(start) AS start_labels, '' @
       [nl] @ ''                labels(end) AS end_labels, '' @ [nl] @
       ''                count(r) AS relationship_count'' @ [nl] @ ''            LIMIT 1'' @
       [nl] @ ''            ''\<close>

definition rel_props_query :: "string \<Rightarrow> string" where
  \<open>rel_props_query rel_type =
     [nl] @ ''                MATCH ()-[r:`'' @ rel_type @ ''`]->() '' @ [nl] @
       ''                RETURN properties(r) AS props'' @ [nl] @ ''                LIMIT 1'' @
       [nl] @ ''                ''\<close>

definition rel_count_query :: "string \<Rightarrow> string" where
  \<open>rel_count_query rel_type =
     ''MATCH ()-[r:`'' @ rel_type @ ''`]->() RETURN count(r) as count''\<close>

definition sample_query :: "string \<Rightarrow> string" where
  \<open>sample_query label =
     [nl] @ ''            MATCH (n:`'' @ label @ ''`) '' @ [nl] @ ''            RETURN n '' @
       [nl] @ ''            LIMIT '' @ str_nat SAMPLE_LIMIT @ [nl] @ ''            ''\<close>

definition indexes_query :: "string" where
  \<open>indexes_query =
     [nl] @ ''        SHOW INDEXES'' @ [nl] @
       ''        YIELD name, labelsOrTypes, properties, type, uniqueness, entityType'' @ [nl] @
       ''        RETURN * ORDER BY name'' @ [nl] @ ''        ''\<close>

definition constraints_query :: "string" where
  \<open>constraints_query =
     [nl] @ ''        SHOW CONSTRAINTS'' @ [nl] @
       ''        YIELD name, labelsOrTypes, properties, type, entityType'' @ [nl] @
       ''        RETURN * ORDER BY name'' @ [nl] @ ''        ''\<close>

definition procedures_query :: "string" where
  \<open>procedures_query =
     [nl] @ ''        CALL dbms.procedures()'' @ [nl] @
       ''        YIELD name, signature, description'' @ [nl] @
       ''        WHERE name STARTS WITH 'apoc' OR name STARTS WITH 'algo' OR name STARTS WITH 'gds'' @ [CHR 0x27] @
       [nl] @ ''        RETURN name, signature, description'' @ [nl] @
       ''        ORDER BY name'' @ [nl] @ ''        ''\<close>

record property =
  property_name :: string
  data_type :: string
  is_primary_key :: bool

record node =
  label :: string
  node_count :: colval
  properties :: "property list"

record relationship =
  rel_type :: string
  start_labels :: "string list"
  end_labels :: "string list"
  relationship_count :: colval
  rel_properties :: pydict


definition get_node_labels :: "executor \<Rightarrow> error + string list" where
  "get_node_labels db =
     ebind (execute_query db labels_query []) (\<lambda>results.
       emap (\<lambda>result. ebind (getitem result ''label'') (as_str ''label'')) results)"

definition get_relationship_types :: "executor \<Rightarrow> error + string list" where
  "get_relationship_types db =
     ebind (execute_query db rel_types_query []) (\<lambda>results.
       emap (\<lambda>result. ebind (getitem result ''relationshipType'') (as_str ''relationshipType''))
         results)"

text \<open>
  The body of the loop over \<^verbatim>\<open>props.items()\<close>:
  \<^verbatim>\<open>
  data_type = type(prop_value).__name__ if prop_value is not None else "unknown"
  is_primary_key = prop_name == 'id'
  \<close>
\<close>

definition describe_property :: "string \<times> pyval \<Rightarrow> property" where
  "describe_property kv =
     \<lparr>property_name = fst kv,
      data_type = (if snd kv \<noteq> PNone then type_name (snd kv) else ''unknown''),
      is_primary_key = (fst kv = ''id'')\<rparr>"

text \<open>
  \<^verbatim>\<open>
  result = self.db.execute_query(query)
  properties = []
  if result and 'props' in result[0]:
      props = result[0]['props']
      for prop_name, prop_value in props.items(): properties.append({...})
  return properties
  \<close>
\<close>

definition get_node_properties :: "executor \<Rightarrow> string \<Rightarrow> error + property list" where
  "get_node_properties db label_arg =
     ebind (execute_query db (node_props_query label_arg) []) (\<lambda>result.
       case result of
         [] \<Rightarrow> Inr []
       | r # rest \<Rightarrow>
           (case map_of r ''props'' of
              None \<Rightarrow> Inr []
            | Some c \<Rightarrow> ebind (as_bag ''props'' c) (\<lambda>props. Inr (map describe_property props))))"

definition get_node :: "executor \<Rightarrow> string \<Rightarrow> error + node" where
  "get_node db label_arg =
     ebind (execute_single_result db (node_count_query label_arg) []) (\<lambda>count_result.
     ebind (item_or count_result ''count'' (Val (PInt 0))) (\<lambda>count.
     ebind (get_node_properties db label_arg) (\<lambda>props.
     Inr \<lparr>label = label_arg, node_count = count, properties = props\<rparr>)))"

definition get_nodes :: "executor \<Rightarrow> error + node list" where
  "get_nodes db = ebind (get_node_labels db) (\<lambda>labels. emap (get_node db) labels)"

text \<open>
  One turn of the loop of \<^verbatim>\<open>get_relationships\<close>: \<^verbatim>\<open>None\<close> when the type is skipped
  (\<^verbatim>\<open>if result:\<close> is false), the entry that is appended otherwise.
\<close>

text \<open>\<^verbatim>\<open>props_result['props'] if props_result and 'props' in props_result else {}\<close>\<close>

fun props_or_empty :: "row option \<Rightarrow> error + pydict" where
  "props_or_empty None = Inr []"
| "props_or_empty (Some d) =
     (case map_of d ''props'' of None \<Rightarrow> Inr [] | Some c \<Rightarrow> as_bag ''props'' c)"

definition relationship_entry :: "executor \<Rightarrow> string \<Rightarrow> row \<Rightarrow> error + relationship" where
  "relationship_entry db rt result =
     ebind (execute_single_result db (rel_props_query rt) []) (\<lambda>props_result.
     ebind (props_or_empty props_result) (\<lambda>props.
     ebind (execute_single_result db (rel_count_query rt) []) (\<lambda>count_result.
     ebind (item_or count_result ''count'' (Val (PInt 0))) (\<lambda>rel_count.
     ebind (ebind (getitem result ''start_labels'') (as_labels ''start_labels'')) (\<lambda>starts.
     ebind (ebind (getitem result ''end_labels'') (as_labels ''end_labels'')) (\<lambda>ends.
     Inr \<lparr>rel_type = rt, start_labels = starts, end_labels = ends,
          relationship_count = rel_count, rel_properties = props\<rparr>))))))"

definition get_relationship :: "executor \<Rightarrow> string \<Rightarrow> error + relationship option" where
  "get_relationship db rt =
     ebind (execute_single_result db (rel_pattern_query rt) []) (\<lambda>result.
       case result of
         None \<Rightarrow> Inr None
       | Some d \<Rightarrow>
           if d \<noteq> [] then ebind (relationship_entry db rt d) (\<lambda>r. Inr (Some r))
           else Inr None)"

fun somes :: "'a option list \<Rightarrow> 'a list" where
  "somes [] = []"
| "somes (None # xs) = somes xs"
| "somes (Some x # xs) = x # somes xs"

definition get_relationships :: "executor \<Rightarrow> error + relationship list" where
  "get_relationships db =
     ebind (get_relationship_types db) (\<lambda>rel_types.
     ebind (emap (get_relationship db) rel_types) (\<lambda>found. Inr (somes found)))"

text \<open>
  Standard output is a list of printed lines; a function that prints returns the lines with
  its result. \<^verbatim>\<open>samples\<close> is a \<^verbatim>\<open>dict\<close> in insertion order: an assignment to a key that is
  there replaces its value in place, a new key goes to the end (\<open>AList.update\<close>).

  \<^verbatim>\<open>
  try:
      results = self.db.execute_query(query)
      samples[label] = []
      for result in results:
          node_data = result['n']
          samples[label].append(node_data)
  except Exception as e:
      print(f"Warning: Error sampling node {label}: {e}")
      samples[label] = []
  \<close>
\<close>

type_synonym samples_dict = "(string \<times> colval list) list"

text \<open>
  The body of the \<^verbatim>\<open>try\<close> block for one label: the list it builds, or the exception that
  the query or a row without the column \<^verbatim>\<open>n\<close> raises.
\<close>

definition sampled :: "executor \<Rightarrow> string \<Rightarrow> error + colval list" where
  "sampled db label_arg =
     ebind (execute_query db (sample_query label_arg) []) (\<lambda>results.
       emap (\<lambda>result. getitem result ''n'') results)"

definition sample_node :: "executor \<Rightarrow> samples_dict \<times> string list \<Rightarrow> node \<Rightarrow> samples_dict \<times> string list"
  where
  "sample_node db acc n =
     (case sampled db (label n) of
        Inr node_data \<Rightarrow> (AList.update (label n) node_data (fst acc), snd acc)
      | Inl e \<Rightarrow>
          (AList.update (label n) [] (fst acc),
           snd acc @ [''Warning: Error sampling node '' @ label n @ '': '' @ err_str e]))"

definition get_samples :: "executor \<Rightarrow> node list \<Rightarrow> samples_dict \<times> string list" where
  "get_samples db ns = foldl (sample_node db) ([], []) ns"




record schema_model =
  version :: colval
  db_name :: colval
  db_size :: colval
  nodes :: "node list"
  relationships :: "relationship list"
  samples :: samples_dict
  indexes :: "row list"
  constraints :: "row list"
  procedures :: "row list"


section \<open>Diagram generator\<close>

text \<open>\<^verbatim>\<open>sep.join(xs)\<close>\<close>

fun join :: "string \<Rightarrow> string list \<Rightarrow> string" where
  "join sep [] = []"
| "join sep [x] = x"
| "join sep (x # y # ys) = x @ sep @ join sep (y # ys)"

definition property_row :: "property \<Rightarrow> string" where
  \<open>property_row prop =
     (let pk_marker = (if is_primary_key prop then ''<TD BGCOLOR="#E0FFE0"><B>PK</B></TD>''
                       else ''<TD></TD>'')
      in ''<TR><TD ALIGN="LEFT">'' @ property_name prop @ ''</TD><TD ALIGN="LEFT">'' @
         data_type prop @ ''</TD>'' @ pk_marker @ ''</TR>'')\<close>

definition generate_node_html :: "node \<Rightarrow> string" where
  \<open>generate_node_html n =
     (let property_rows = map property_row (properties n);
          property_rows_str =
            (if property_rows \<noteq> [] then join [nl] property_rows
             else ''<TR><TD COLSPAN="3">No properties</TD></TR>'')
      in ''<'' @ [nl] @
         ''            <TABLE BORDER="0" CELLBORDER="1" CELLSPACING="0" CELLPADDING="4">'' @ [nl] @
         ''                <TR>'' @ [nl] @
         ''                    <TD COLSPAN="3" BGCOLOR="#4D7A97"><FONT COLOR="white"><B>'' @
         label n @ ''</B> (Node)</FONT></TD>'' @ [nl] @
         ''                </TR>'' @ [nl] @
         ''                <TR>'' @ [nl] @
         ''                    <TD BGCOLOR="#EEEEFF"><B>Property</B></TD>'' @ [nl] @
         ''                    <TD BGCOLOR="#EEEEFF"><B>Type</B></TD>'' @ [nl] @
         ''                    <TD BGCOLOR="#EEEEFF"><B>PK</B></TD>'' @ [nl] @
         ''                </TR>'' @ [nl] @
         ''                '' @ property_rows_str @ [nl] @
         ''            </TABLE>'' @ [nl] @
         ''        >'')\<close>

text \<open>
  The file is the text written so far; \<^verbatim>\<open>f.write(x)\<close> appends \<open>x\<close>. The node statement:
  \<^verbatim>\<open>f.write(f'  "{label}" [label={node_html}];\n')\<close>
\<close>

definition node_stmt :: "node \<Rightarrow> string" where
  \<open>node_stmt n = ''  "'' @ label n @ ''" [label='' @ generate_node_html n @ ''];'' @ [nl]\<close>

definition write_node :: "string \<Rightarrow> node \<Rightarrow> string" where
  "write_node f n = f @ node_stmt n"

text \<open>
  \<^verbatim>\<open>
  rel_label = f"{rel_type}"
  if relationship['properties']:
      props_str = ", ".join([f"{k}: {type(v).__name__}" for k, v in relationship['properties'].items()])
      rel_label += f" ({props_str})"
  \<close>
\<close>

definition rel_label :: "relationship \<Rightarrow> string" where
  "rel_label r =
     (if rel_properties r \<noteq> []
      then rel_type r @ '' ('' @
           join '', '' (map (\<lambda>kv. fst kv @ '': '' @ type_name (snd kv)) (rel_properties r)) @ '')''
      else rel_type r)"

text \<open>The two writes that make one edge statement.\<close>

definition write_edge :: "relationship \<Rightarrow> string \<Rightarrow> string \<Rightarrow> string \<Rightarrow> string" where
  \<open>write_edge r f start_label end_label =
     (f @ ''  "'' @ start_label @ ''" -> "'' @ end_label @ ''" [label="'' @ rel_label r @
          ''", fontname="Helvetica", '')
     @ ''fontsize=8, color="#5D8AA8", style="solid"];'' @ [nl]\<close>

definition write_relationship :: "string \<Rightarrow> relationship \<Rightarrow> string" where
  "write_relationship f r =
     foldl (\<lambda>f start_label. foldl (\<lambda>f end_label. write_edge r f start_label end_label)
                               f (end_labels r))
       f (start_labels r)"

definition write_graph :: "node list \<Rightarrow> relationship list \<Rightarrow> string" where
  \<open>write_graph ns rs =
     (let f = [];
          f = f @ ''digraph Neo4jGraph {'' @ [nl];
          f = f @ ''  graph [rankdir=LR, fontname="Helvetica", fontsize=12, pad="0.5", nodesep="0.5", ranksep="1.5"];'' @ [nl];
          f = f @ ''  node [shape=plain, fontname="Helvetica", fontsize=10];'' @ [nl];
          f = f @ ''  edge [fontname="Helvetica", fontsize=9, penwidth=1.0];'' @ [nl, nl];
          f = foldl write_node f ns;
          f = f @ [nl];
          f = foldl write_relationship f rs
      in f @ ''}'' @ [nl])\<close>

text \<open>
  \<^verbatim>\<open>generate_graph_dot\<close> opens \<^verbatim>\<open>dot_path\<close> for writing, which empties the file or
  creates it, writes the graph, and prints one line. The file system maps a path to the
  content of the file there.
\<close>

type_synonym files = "string \<Rightarrow> string option"

definition generate_graph_dot ::
  "node list \<Rightarrow> relationship list \<Rightarrow> string \<Rightarrow> files \<Rightarrow> files \<times> string list" where
  "generate_graph_dot ns rs dot_path fs =
     (fs(dot_path \<mapsto> write_graph ns rs), [''[+] DOT graph diagram generated: '' @ dot_path])"

text \<open>
  The text of the four opening writes, the edge statement for one pair of labels, and the
  edge statements of a relationship, start labels outermost.
\<close>

definition graph_header :: string where
  \<open>graph_header =
     ''digraph Neo4jGraph {'' @ [nl] @
     ''  graph [rankdir=LR, fontname="Helvetica", fontsize=12, pad="0.5", nodesep="0.5", ranksep="1.5"];'' @ [nl] @
     ''  node [shape=plain, fontname="Helvetica", fontsize=10];'' @ [nl] @
     ''  edge [fontname="Helvetica", fontsize=9, penwidth=1.0];'' @ [nl, nl]\<close>

definition edge_stmt :: "relationship \<Rightarrow> string \<Rightarrow> string \<Rightarrow> string" where
  \<open>edge_stmt r s e =
     ''  "'' @ s @ ''" -> "'' @ e @ ''" [label="'' @ rel_label r @
     ''", fontname="Helvetica", fontsize=8, color="#5D8AA8", style="solid"];'' @ [nl]\<close>

definition relationship_edges :: "relationship \<Rightarrow> string list" where
  "relationship_edges r =
     map (\<lambda>se. edge_stmt r (fst se) (snd se)) (List.product (start_labels r) (end_labels r))"

subsection \<open>Reading a quoted identifier of the diagram language\<close>

text \<open>
  The DOT language takes, as an identifier, a double-quoted string in which \<^verbatim>\<open>\"\<close> stands
  for a double quote; the string ends at the first double quote that has no backslash
  before it. \<open>read_quoted s\<close> reads such an identifier at the head of \<open>s\<close> and returns it
  with the text that follows, or \<open>None\<close> when \<open>s\<close> does not begin with a complete one.
\<close>

definition dq :: char where
  "dq = CHR 0x22"

fun quoted_body :: "string \<Rightarrow> (string \<times> string) option" where
  "quoted_body [] = None"
| "quoted_body [c] = (if c = dq then Some ([], []) else None)"
| "quoted_body (c # d # cs) =
     (if c = dq then Some ([], d # cs)
      else if c = bs \<and> d = dq then map_option (\<lambda>br. (dq # fst br, snd br)) (quoted_body cs)
      else map_option (\<lambda>br. (c # fst br, snd br)) (quoted_body (d # cs)))"

fun read_quoted :: "string \<Rightarrow> (string \<times> string) option" where
  "read_quoted [] = None"
| "read_quoted (c # cs) = (if c = dq then quoted_body cs else None)"

section \<open>Report generator: the sample-data table\<close>

text \<open>
  \<^verbatim>\<open>
  all_keys = set()
  for sample in samples: all_keys.update(sample.keys())
  all_keys = sorted(list(all_keys))
  \<close>
  Python orders strings by code point, which is the order of their UTF-8 bytes.
\<close>

definition all_keys :: "pydict list \<Rightarrow> string set" where
  "all_keys recs = foldl (\<lambda>ks sample. ks \<union> set (map fst sample)) {} recs"

definition sample_columns :: "pydict list \<Rightarrow> string list" where
  "sample_columns recs = sorted_list_of_set (all_keys recs)"

text \<open>\<^verbatim>\<open>sample.get(key, "")\<close>\<close>

definition get_or_empty :: "pydict \<Rightarrow> string \<Rightarrow> pyval" where
  "get_or_empty sample key = (case map_of sample key of None \<Rightarrow> PStr [] | Some v \<Rightarrow> v)"

definition row_values :: "string list \<Rightarrow> pydict \<Rightarrow> string list" where
  "row_values keys sample = map (\<lambda>key. escape_markdown (get_or_empty sample key)) keys"

definition write_sample_table :: "string \<Rightarrow> pydict list \<Rightarrow> string" where
  "write_sample_table f recs =
     (let keys = sample_columns recs;
          header_row = join '' | '' (map (\<lambda>key. escape_markdown (PStr key)) keys);
          f = f @ ''| '' @ header_row @ '' |'' @ [nl];
          separator = join '' | '' (map (\<lambda>key. ''----'') keys);
          f = f @ ''| '' @ separator @ '' |'' @ [nl]
      in foldl (\<lambda>f sample. f @ ''| '' @ join '' | '' (row_values keys sample) @ '' |'' @ [nl])
           f recs)"

text \<open>
  The sample-data part of a node's section. \<^verbatim>\<open>self.data['samples'].get(node['label'], [])\<close>
  reads the samples of the label; the report takes each sample as a property bag.
\<close>

definition write_sample_data :: "(string \<times> pydict list) list \<Rightarrow> string \<Rightarrow> node \<Rightarrow> string" where
  "write_sample_data data_samples f n =
     (let f = f @ [nl] @ ''#### Sample Data'' @ [nl, nl];
          recs = (case map_of data_samples (label n) of None \<Rightarrow> [] | Some ss \<Rightarrow> ss)
      in if recs \<noteq> [] then write_sample_table f recs
         else f @ ''No sample data available.'' @ [nl])"

section \<open>An executor to run the extractor on\<close>

text \<open>
  A database with the labels \<^verbatim>\<open>A\<close> (two nodes) and \<^verbatim>\<open>B\<close> (none) and the relationship
  types \<^verbatim>\<open>R\<close> (no edge) and \<^verbatim>\<open>S\<close> (one edge from an \<^verbatim>\<open>A\<close> node to an \<^verbatim>\<open>A\<close> node, without
  properties). It does not support the index, constraint and procedure queries, nor
  sampling of \<^verbatim>\<open>A\<close>; the version, name and size queries return no row.
\<close>

definition demo_db :: executor where
  "demo_db =
     \<lparr>execute_query = (\<lambda>q ps.
        if q = labels_query then
          Inr [[(''label'', Val (PStr ''A''))], [(''label'', Val (PStr ''B''))]]
        else if q = rel_types_query then
          Inr [[(''relationshipType'', Val (PStr ''R''))],
               [(''relationshipType'', Val (PStr ''S''))]]
        else if q = node_props_query ''A'' then
          Inr [[(''props'', Bag [(''id'', PInt 7), (''name'', PStr ''x''), (''note'', PNone)])]]
        else if q = node_props_query ''B'' then Inr []
        else if q = sample_query ''B'' then Inr []
        else Inl (DbError ''unsupported'')),
      execute_single_result = (\<lambda>q ps.
        if q = node_count_query ''A'' then Inr (Some [(''count'', Val (PInt 2))])
        else if q = node_count_query ''B'' then Inr (Some [(''count'', Val (PInt 0))])
        else if q = rel_pattern_query ''S'' then
          Inr (Some [(''start_labels'', Labels [''A'']), (''end_labels'', Labels [''A'']),
                     (''relationship_count'', Val (PInt 1))])
        else if q = rel_count_query ''S'' then Inr (Some [(''count'', Val (PInt 1))])
        else Inr None)\<rparr>"

section \<open>The type tags of the specification\<close>


section \<open>Properties of \<^verbatim>\<open>escape_markdown\<close>\<close>

lemma replace_chr_concat:
  "replace_chr c new s = concat (map (\<lambda>x. if x = c then new else [x]) s)"
  by (induction s) simp_all

lemma escape_pass_step:
  assumes "c \<notin> set cs" and "bs \<notin> set cs"
  shows "concat (map (\<lambda>x. if x \<in> set cs then [bs, x] else [x]) (replace_chr c [bs, c] s))
       = concat (map (\<lambda>x. if x \<in> set (c # cs) then [bs, x] else [x]) s)"
  using assms by (induction s) auto

lemma escape_passes:
  "distinct cs \<Longrightarrow> bs \<notin> set cs \<Longrightarrow>
   foldl (\<lambda>result c. replace_chr c [bs, c] result) s cs
     = concat (map (\<lambda>x. if x \<in> set cs then [bs, x] else [x]) s)"
proof (induction cs arbitrary: s)
  case Nil
  show ?case by (induction s) simp_all
next
  case (Cons c cs)
  from Cons.prems have c: "c \<notin> set cs" and b: "bs \<notin> set cs" and d: "distinct cs"
    by auto
  have "foldl (\<lambda>result c. replace_chr c [bs, c] result) s (c # cs)
      = foldl (\<lambda>result c. replace_chr c [bs, c] result) (replace_chr c [bs, c] s) cs"
    by simp
  also have "\<dots> = concat (map (\<lambda>x. if x \<in> set cs then [bs, x] else [x])
                      (replace_chr c [bs, c] s))"
    using Cons.IH [OF d b] .
  also have "\<dots> = concat (map (\<lambda>x. if x \<in> set (c # cs) then [bs, x] else [x]) s)"
    using escape_pass_step [OF c b] .
  finally show ?case .
qed

lemma escape_chars_distinct: "distinct escape_chars"
  by (simp add: escape_chars_def)

lemma bs_not_escaped: "bs \<notin> set escape_chars"
  by (simp add: escape_chars_def bs_def)

lemma escape_text_each:
  "foldl (\<lambda>result c. replace_chr c [bs, c] result) s escape_chars = escape_each s"
  unfolding escape_each_def escape_one_def
  using escape_passes [OF escape_chars_distinct bs_not_escaped] by simp

lemma count_bs_escape_each:
  "count_list (escape_each s) bs
     = count_list s bs + length (filter (\<lambda>c. c \<in> set escape_chars) s)"
  using bs_not_escaped
  by (induction s) (auto simp: escape_each_def escape_one_def)

lemma py_str_None_plain:
  "count_list (py_str PNone) bs = 0 \<and> filter (\<lambda>c. c \<in> set escape_chars) (py_str PNone) = []"
  by (simp add: bs_def escape_chars_def)

text \<open>
  Claim C4. One application of \<^verbatim>\<open>escape_markdown\<close> is the character-by-character rule:
  the thirteen passes of \<^verbatim>\<open>replace\<close> together put exactly one backslash in front of each
  occurrence of each of the thirteen characters and leave every other character alone, in
  whatever order the passes run; \<^verbatim>\<open>None\<close> gives the empty string; \<^verbatim>\<open>a|b\<close> gives
  \<^verbatim>\<open>a\|b\<close>; and a backslash that is already in the value as data is never itself escaped
  and never changes what the characters after it receive: the output holds the backslashes
  of the input plus one per occurrence of the thirteen characters, no more.
\<close>

theorem escape_markdown_charwise:
  "escape_markdown v = (if v = PNone then [] else escape_each (py_str v))
   \<and> escape_markdown PNone = []
   \<and> escape_markdown (PStr ''a|b'') = [CHR ''a'', bs, CHR ''|'', CHR ''b'']
   \<and> escape_one bs = [bs]
   \<and> count_list (escape_markdown v) bs
        = (if v = PNone then 0
           else count_list (py_str v) bs
                + length (filter (\<lambda>c. c \<in> set escape_chars) (py_str v)))"
proof -
  have e: "escape_markdown v = (if v = PNone then [] else escape_each (py_str v))" for v
    by (simp add: escape_markdown_def escape_text_each)
  have a: "escape_each ''a|b'' = [CHR ''a'', bs, CHR ''|'', CHR ''b'']"
    by (simp add: escape_each_def escape_one_def escape_chars_def)
  have b: "escape_one bs = [bs]"
    using bs_not_escaped by (simp add: escape_one_def)
  show ?thesis
    using a b by (simp add: e count_bs_escape_each)
qed

theorem escape_markdown_charwise_witness:
  "escape_markdown (PStr [CHR ''a'', bs, CHR ''|'', CHR ''b''])
     = [CHR ''a'', bs, bs, CHR ''|'', CHR ''b'']
   \<and> escape_markdown (PInt (- 12)) = [bs, CHR ''-'', CHR ''1'', CHR ''2'']"
proof -
  have "escape_markdown (PStr [CHR ''a'', bs, CHR ''|'', CHR ''b''])
          = escape_each [CHR ''a'', bs, CHR ''|'', CHR ''b'']"
    using escape_markdown_charwise [of "PStr [CHR ''a'', bs, CHR ''|'', CHR ''b'']"] by simp
  moreover have "escape_markdown (PInt (- 12)) = escape_each (py_str (PInt (- 12)))"
    using escape_markdown_charwise [of "PInt (- 12)"] by simp
  moreover have "py_str (PInt (- 12)) = ''-12''"
    by (simp add: digit_char_def)
  ultimately show ?thesis
    by (simp add: escape_each_def escape_one_def escape_chars_def bs_def)
qed

section \<open>Properties of the diagram generator\<close>

lemma foldl_append_concat: "foldl (\<lambda>f x. f @ g x) f xs = f @ concat (map g xs)"
  by (induction xs arbitrary: f) simp_all

lemma write_edge_eq: "write_edge r f s e = f @ edge_stmt r s e"
  by (simp add: write_edge_def edge_stmt_def)

lemma concat_product:
  "concat (map h (List.product xs ys)) = concat (map (\<lambda>x. concat (map (\<lambda>y. h (x, y)) ys)) xs)"
  by (induction xs) (simp_all add: comp_def)

lemma write_relationship_eq: "write_relationship f r = f @ concat (relationship_edges r)"
proof -
  have inner: "foldl (\<lambda>f e. write_edge r f s e) f (end_labels r)
                 = f @ concat (map (edge_stmt r s) (end_labels r))" for f s
    unfolding write_edge_eq by (rule foldl_append_concat)
  have "write_relationship f r
          = f @ concat (map (\<lambda>s. concat (map (edge_stmt r s) (end_labels r))) (start_labels r))"
    unfolding write_relationship_def inner by (rule foldl_append_concat)
  also have "concat (map (\<lambda>s. concat (map (edge_stmt r s) (end_labels r))) (start_labels r))
               = concat (relationship_edges r)"
    unfolding relationship_edges_def
    by (simp add: concat_product [where h = "\<lambda>se. edge_stmt r (fst se) (snd se)"] comp_def map_concat)
  finally show ?thesis .
qed

lemma write_graph_eq:
  "write_graph ns rs
     = graph_header @ concat (map node_stmt ns) @ [nl]
       @ concat (map (\<lambda>r. concat (relationship_edges r)) rs) @ ''}'' @ [nl]"
proof -
  have n: "foldl write_node f ns = f @ concat (map node_stmt ns)" for f
    unfolding write_node_def by (rule foldl_append_concat)
  have r: "foldl write_relationship f rs = f @ concat (map (\<lambda>r. concat (relationship_edges r)) rs)" for f
    using foldl_append_concat [of "\<lambda>r. concat (relationship_edges r)" f rs]
    by (simp add: write_relationship_eq [abs_def])
  show ?thesis
    by (simp add: write_graph_def Let_def n r graph_header_def)
qed

lemma map_product:
  "map h (List.product xs ys) = concat (map (\<lambda>x. map (\<lambda>y. h (x, y)) ys) xs)"
  by (induction xs) (simp_all add: comp_def)

lemma relationship_edges_nested:
  "relationship_edges r
     = concat (map (\<lambda>s. map (\<lambda>e. edge_stmt r s e) (end_labels r)) (start_labels r))"
  unfolding relationship_edges_def
  by (simp add: map_product [where h = "\<lambda>se. edge_stmt r (fst se) (snd se)"])

lemma edge_stmt_text:
  \<open>edge_stmt r s e
     = ''  "'' @ s @ ''" -> "'' @ e @ ''" [label="'' @ rel_type r @
       (if rel_properties r = [] then []
        else '' ('' @ join '', '' (map (\<lambda>kv. fst kv @ '': '' @ type_name (snd kv))
                                    (rel_properties r)) @ '')'') @
       ''", fontname="Helvetica", fontsize=8, color="#5D8AA8", style="solid"];'' @ [nl]\<close>
  by (simp add: edge_stmt_def rel_label_def)

text \<open>
  Claim C1. The file that \<^verbatim>\<open>generate_graph_dot\<close> writes holds, after the header, the node
  statements and an empty line, the edge statements of every relationship of the input, in
  the order of the input, and then the closing brace. The edge statements of a relationship
  are one statement for each pair of a start label and an end label, start labels
  outermost, so their number is the product of the numbers of start and end labels, and the
  file holds as many edge statements as these products add up to. Every statement of a
  relationship carries its type name as label, followed by the comma-joined
  \<^verbatim>\<open>name: type\<close> list in parentheses when the relationship has properties.
\<close>

theorem relationship_edge_count:
  \<open>fst (generate_graph_dot ns rs dot_path fs) dot_path = Some (write_graph ns rs)
   \<and> write_graph ns rs
       = graph_header @ concat (map node_stmt ns) @ [nl]
         @ concat (concat (map relationship_edges rs)) @ ''}'' @ [nl]
   \<and> length (concat (map relationship_edges rs))
       = sum_list (map (\<lambda>r. length (start_labels r) * length (end_labels r)) rs)
   \<and> relationship_edges r
       = concat (map (\<lambda>s. map (\<lambda>e. edge_stmt r s e) (end_labels r)) (start_labels r))
   \<and> length (relationship_edges r) = length (start_labels r) * length (end_labels r)
   \<and> edge_stmt r s e
       = ''  "'' @ s @ ''" -> "'' @ e @ ''" [label="'' @ rel_type r @
         (if rel_properties r = [] then []
          else '' ('' @ join '', '' (map (\<lambda>kv. fst kv @ '': '' @ type_name (snd kv))
                                      (rel_properties r)) @ '')'') @
         ''", fontname="Helvetica", fontsize=8, color="#5D8AA8", style="solid"];'' @ [nl]\<close>
proof -
  have written: "fst (generate_graph_dot ns rs dot_path fs) dot_path = Some (write_graph ns rs)"
    by (simp add: generate_graph_dot_def)
  have "concat (map (\<lambda>r. concat (relationship_edges r)) rs)
          = concat (concat (map relationship_edges rs))"
    by (induction rs) simp_all
  then have content: "write_graph ns rs
       = graph_header @ concat (map node_stmt ns) @ [nl]
         @ concat (concat (map relationship_edges rs)) @ ''}'' @ [nl]"
    by (simp add: write_graph_eq)
  have each: "length (relationship_edges r) = length (start_labels r) * length (end_labels r)"
    for r
    by (simp add: relationship_edges_def)
  have total: "length (concat (map relationship_edges rs))
       = sum_list (map (\<lambda>r. length (start_labels r) * length (end_labels r)) rs)"
    by (simp add: length_concat comp_def each)
  show ?thesis
    using written content total relationship_edges_nested [of r] each [of r] edge_stmt_text [of r s e]
    by blast
qed

text \<open>
  One relationship with start labels \<^verbatim>\<open>A\<close>, \<^verbatim>\<open>B\<close>, end label \<^verbatim>\<open>C\<close> and two properties: the
  file holds the two edges \<^verbatim>\<open>A -> C\<close> and \<^verbatim>\<open>B -> C\<close>, in this order.
\<close>

theorem relationship_edge_count_witness:
  \<open>fst (generate_graph_dot []
          [\<lparr>rel_type = ''KNOWS'', start_labels = [''A'', ''B''], end_labels = [''C''],
            relationship_count = Val (PInt 3),
            rel_properties = [(''since'', PInt 1999), (''w'', PNone)]\<rparr>]
          ''g.dot'' (\<lambda>p. None)) ''g.dot''
   = Some (graph_header @ [nl] @
       ''  "A" -> "C" [label="KNOWS (since: int, w: NoneType)", fontname="Helvetica", fontsize=8, color="#5D8AA8", style="solid"];'' @ [nl] @
       ''  "B" -> "C" [label="KNOWS (since: int, w: NoneType)", fontname="Helvetica", fontsize=8, color="#5D8AA8", style="solid"];'' @ [nl] @
       ''}'' @ [nl])
   \<and> length (relationship_edges
        \<lparr>rel_type = ''KNOWS'', start_labels = [''A'', ''B''], end_labels = [''C''],
         relationship_count = Val (PInt 3),
         rel_properties = [(''since'', PInt 1999), (''w'', PNone)]\<rparr>) = 2 * 1\<close>
proof -
  note t = relationship_edge_count [where ns = "[]" and dot_path = "''g.dot''"
      and fs = "\<lambda>p. None"
      and rs = "[\<lparr>rel_type = ''KNOWS'', start_labels = [''A'', ''B''], end_labels = [''C''],
            relationship_count = Val (PInt 3),
            rel_properties = [(''since'', PInt 1999), (''w'', PNone)]\<rparr>]"
      and r = "\<lparr>rel_type = ''KNOWS'', start_labels = [''A'', ''B''], end_labels = [''C''],
            relationship_count = Val (PInt 3),
            rel_properties = [(''since'', PInt 1999), (''w'', PNone)]\<rparr>"]
  show ?thesis
    using t [where s = "''A''" and e = "''C''"] t [where s = "''B''" and e = "''C''"]
    by simp
qed

text \<open>
  Claim C7. The node statement puts the label between two double quotes as it is. For the
  label \<^verbatim>\<open>a"b\<close> the statement begins \<^verbatim>\<open>"a"b"\<close>, and the identifier read back from it is
  \<^verbatim>\<open>a\<close>, not the label: the double quote inside the label ends the identifier.
\<close>

theorem node_label_quote_unescaped:
  \<open>node_stmt \<lparr>label = ''a"b'', node_count = Val (PInt 1), properties = []\<rparr>
     = ''  "a"b" [label='' @
       generate_node_html \<lparr>label = ''a"b'', node_count = Val (PInt 1), properties = []\<rparr> @
       ''];'' @ [nl]
   \<and> map_option fst
        (read_quoted (drop 2 (node_stmt \<lparr>label = ''a"b'', node_count = Val (PInt 1), properties = []\<rparr>)))
     = Some ''a''
   \<and> map_option fst
        (read_quoted (drop 2 (node_stmt \<lparr>label = ''a"b'', node_count = Val (PInt 1), properties = []\<rparr>)))
     \<noteq> Some (label \<lparr>label = ''a"b'', node_count = Val (PInt 1), properties = []\<rparr>)\<close>
  by (simp add: node_stmt_def dq_def bs_def)

section \<open>Properties of the sample-data table\<close>

lemma all_keys_fold:
  "foldl (\<lambda>ks sample. ks \<union> set (map fst sample)) K recs = K \<union> (\<Union>s\<in>set recs. fst ` set s)"
  by (induction recs arbitrary: K) auto

lemma all_keys_union: "all_keys recs = (\<Union>s\<in>set recs. fst ` set s)"
  unfolding all_keys_def using all_keys_fold [of "{}" recs] by simp

lemma all_keys_finite: "finite (all_keys recs)"
  by (simp add: all_keys_union)

lemma sample_columns_sort:
  "sample_columns recs = sort (remdups (concat (map (map fst) recs)))"
proof -
  have "all_keys recs = set (concat (map (map fst) recs))"
    by (auto simp: all_keys_union)
  then show ?thesis
    unfolding sample_columns_def by (simp only: sorted_list_of_set_sort_remdups)
qed

lemma write_sample_table_eq:
  "write_sample_table f recs
     = f @ ''| '' @ join '' | '' (map (\<lambda>key. escape_markdown (PStr key)) (sample_columns recs))
           @ '' |'' @ [nl]
         @ ''| '' @ join '' | '' (map (\<lambda>key. ''----'') (sample_columns recs)) @ '' |'' @ [nl]
         @ concat (map (\<lambda>sample. ''| '' @ join '' | '' (row_values (sample_columns recs) sample)
                                  @ '' |'' @ [nl]) recs)"
  by (simp add: write_sample_table_def Let_def foldl_append_concat)

lemma row_values_cell:
  "i < length keys \<Longrightarrow>
   row_values keys sample ! i
     = (case map_of sample (keys ! i) of None \<Rightarrow> [] | Some v \<Rightarrow> escape_markdown v)"
  by (simp add: row_values_def get_or_empty_def escape_markdown_def escape_text_each
        escape_each_def split: option.split)

text \<open>
  Claim C5. For a label whose sample list is not empty, the header of the sample-data table
  has one column for each key that occurs in any of the label's sampled records: the columns
  are sorted, without repetition, and their set is the union of the key sets of all the
  records. Each record gives one row over these columns, and the cell of a key that the
  record does not have is the empty string.
\<close>

theorem sample_table_columns:
  assumes "map_of data_samples (label n) = Some recs" and "recs \<noteq> []"
  shows "write_sample_data data_samples f n
           = f @ [nl] @ ''#### Sample Data'' @ [nl, nl]
             @ ''| '' @ join '' | '' (map (\<lambda>key. escape_markdown (PStr key)) (sample_columns recs))
             @ '' |'' @ [nl]
             @ ''| '' @ join '' | '' (map (\<lambda>key. ''----'') (sample_columns recs)) @ '' |'' @ [nl]
             @ concat (map (\<lambda>sample. ''| '' @ join '' | '' (row_values (sample_columns recs) sample)
                                      @ '' |'' @ [nl]) recs)
         \<and> sorted (sample_columns recs) \<and> distinct (sample_columns recs)
         \<and> set (sample_columns recs) = (\<Union>sample\<in>set recs. fst ` set sample)
         \<and> (\<forall>sample\<in>set recs.
              length (row_values (sample_columns recs) sample) = length (sample_columns recs)
              \<and> (\<forall>i<length (sample_columns recs).
                    row_values (sample_columns recs) sample ! i
                      = (case map_of sample (sample_columns recs ! i) of
                           None \<Rightarrow> [] | Some v \<Rightarrow> escape_markdown v)))"
proof -
  have w: "write_sample_data data_samples f n
             = write_sample_table (f @ [nl] @ ''#### Sample Data'' @ [nl, nl]) recs"
    using assms by (simp add: write_sample_data_def Let_def)
  have s: "sorted (sample_columns recs) \<and> distinct (sample_columns recs)
           \<and> set (sample_columns recs) = (\<Union>sample\<in>set recs. fst ` set sample)"
    using all_keys_finite [of recs] by (simp add: sample_columns_def all_keys_union)
  have c: "\<forall>sample\<in>set recs.
              length (row_values (sample_columns recs) sample) = length (sample_columns recs)
              \<and> (\<forall>i<length (sample_columns recs).
                    row_values (sample_columns recs) sample ! i
                      = (case map_of sample (sample_columns recs ! i) of
                           None \<Rightarrow> [] | Some v \<Rightarrow> escape_markdown v))"
    by (simp add: row_values_cell) (simp add: row_values_def)
  show ?thesis
    using s c unfolding w write_sample_table_eq by simp
qed

text \<open>
  The records \<^verbatim>\<open>{a: 1}\<close> and \<^verbatim>\<open>{b: 2}\<close> of label \<^verbatim>\<open>X\<close>: columns \<^verbatim>\<open>a\<close>, \<^verbatim>\<open>b\<close> and the rows
  \<^verbatim>\<open>1\<close>, empty and empty, \<^verbatim>\<open>2\<close>.
\<close>

theorem sample_table_columns_witness:
  "map_of [(''X'', [[(''a'', PInt 1)], [(''b'', PInt 2)]])]
          (label \<lparr>label = ''X'', node_count = Val (PInt 2), properties = []\<rparr>)
     = Some [[(''a'', PInt 1)], [(''b'', PInt 2)]]
   \<and> [[(''a'', PInt 1)], [(''b'', PInt 2)]] \<noteq> ([] :: pydict list)
   \<and> sample_columns [[(''a'', PInt 1)], [(''b'', PInt 2)]] = [''a'', ''b'']
   \<and> map (row_values [''a'', ''b'']) [[(''a'', PInt 1)], [(''b'', PInt 2)]]
       = [[''1'', ''''], ['''', ''2'']]
   \<and> write_sample_data [(''X'', [[(''a'', PInt 1)], [(''b'', PInt 2)]])] []
        \<lparr>label = ''X'', node_count = Val (PInt 2), properties = []\<rparr>
       = [nl] @ ''#### Sample Data'' @ [nl, nl]
         @ ''| a | b |'' @ [nl] @ ''| ---- | ---- |'' @ [nl]
         @ ''| 1 |  |'' @ [nl] @ ''|  | 2 |'' @ [nl]"
proof -
  have cols: "sample_columns [[(''a'', PInt 1)], [(''b'', PInt 2)]] = [''a'', ''b'']"
    by (simp add: sample_columns_sort)
  have rows: "map (row_values [''a'', ''b'']) [[(''a'', PInt 1)], [(''b'', PInt 2)]]
       = [[''1'', ''''], ['''', ''2'']]"
    by (simp add: row_values_def get_or_empty_def escape_markdown_def escape_chars_def
          digit_char_def)
  have esc: "escape_markdown (PStr ''a'') = ''a''" "escape_markdown (PStr ''b'') = ''b''"
    by (simp_all add: escape_markdown_def escape_chars_def)
  have "write_sample_data [(''X'', [[(''a'', PInt 1)], [(''b'', PInt 2)]])] []
        \<lparr>label = ''X'', node_count = Val (PInt 2), properties = []\<rparr>
       = [nl] @ ''#### Sample Data'' @ [nl, nl]
         @ ''| a | b |'' @ [nl] @ ''| ---- | ---- |'' @ [nl]
         @ ''| 1 |  |'' @ [nl] @ ''|  | 2 |'' @ [nl]"
    using sample_table_columns [of "[(''X'', [[(''a'', PInt 1)], [(''b'', PInt 2)]])]"
        "\<lparr>label = ''X'', node_count = Val (PInt 2), properties = []\<rparr>"
        "[[(''a'', PInt 1)], [(''b'', PInt 2)]]" "[]"] rows
    by (simp add: cols esc)
  then show ?thesis
    using cols rows by simp
qed

section \<open>Properties of the extractor\<close>

lemma ebind_Inr: "ebind m f = Inr y \<longleftrightarrow> (\<exists>x. m = Inr x \<and> f x = Inr y)"
  by (cases m) simp_all

lemma emap_Inr:
  "emap f xs = Inr ys \<Longrightarrow> list_all2 (\<lambda>x y. f x = Inr y) xs ys"
  by (induction xs arbitrary: ys) (auto simp: ebind_Inr)

lemma get_node_properties_bag:
  assumes "execute_query db (node_props_query L) [] = Inr (r # rest)"
      and "map_of r ''props'' = Some (Bag props)"
  shows "get_node_properties db L = Inr (map describe_property props)"
  using assms by (simp add: get_node_properties_def)

text \<open>
  Claim C6. When the one-row property query of a label returns an entity's property bag,
  \<^verbatim>\<open>get_node_properties\<close> returns one descriptor for each key of the bag, in the bag's
  order: the inferred type is \<^verbatim>\<open>unknown\<close> if the sampled value is \<^verbatim>\<open>None\<close> and the name of
  the value's runtime type otherwise, and the descriptor is marked as primary key exactly
  when the property is named \<^verbatim>\<open>id\<close>, whatever its value.
\<close>

theorem node_property_inference:
  assumes "execute_query db (node_props_query L) [] = Inr (r # rest)"
      and "map_of r ''props'' = Some (Bag props)"
  shows "\<exists>ps. get_node_properties db L = Inr ps \<and> length ps = length props
           \<and> (\<forall>i<length props.
                 property_name (ps ! i) = fst (props ! i)
                 \<and> data_type (ps ! i)
                     = (if snd (props ! i) = PNone then ''unknown''
                        else type_name (snd (props ! i)))
                 \<and> (is_primary_key (ps ! i) \<longleftrightarrow> fst (props ! i) = ''id''))"
  using get_node_properties_bag [OF assms] by (simp add: describe_property_def)

lemma demo_props_A:
  "execute_query demo_db (node_props_query ''A'') []
     = Inr [[(''props'', Bag [(''id'', PInt 7), (''name'', PStr ''x''), (''note'', PNone)])]]"
  by (simp add: demo_db_def node_props_query_def labels_query_def rel_types_query_def nl_def)

text \<open>The bag \<^verbatim>\<open>{id: 7, name: 'x', note: None}\<close> of label \<^verbatim>\<open>A\<close>.\<close>

theorem node_property_inference_witness:
  "execute_query demo_db (node_props_query ''A'') []
     = Inr [[(''props'', Bag [(''id'', PInt 7), (''name'', PStr ''x''), (''note'', PNone)])]]
   \<and> map_of [(''props'', Bag [(''id'', PInt 7), (''name'', PStr ''x''), (''note'', PNone)])] ''props''
       = Some (Bag [(''id'', PInt 7), (''name'', PStr ''x''), (''note'', PNone)])
   \<and> get_node_properties demo_db ''A''
       = Inr [\<lparr>property_name = ''id'', data_type = ''int'', is_primary_key = True\<rparr>,
              \<lparr>property_name = ''name'', data_type = ''str'', is_primary_key = False\<rparr>,
              \<lparr>property_name = ''note'', data_type = ''unknown'', is_primary_key = False\<rparr>]"
proof -
  have m: "map_of [(''props'', Bag [(''id'', PInt 7), (''name'', PStr ''x''), (''note'', PNone)])] ''props''
       = Some (Bag [(''id'', PInt 7), (''name'', PStr ''x''), (''note'', PNone)])"
    by simp
  from node_property_inference [OF demo_props_A m]
  obtain ps where ps: "get_node_properties demo_db ''A'' = Inr ps" "length ps = 3"
    and each: "\<forall>i<3. property_name (ps ! i) = fst ([(''id'', PInt 7), (''name'', PStr ''x''), (''note'', PNone)] ! i)
                 \<and> data_type (ps ! i)
                     = (if snd ([(''id'', PInt 7), (''name'', PStr ''x''), (''note'', PNone)] ! i) = PNone then ''unknown''
                        else type_name (snd ([(''id'', PInt 7), (''name'', PStr ''x''), (''note'', PNone)] ! i)))
                 \<and> (is_primary_key (ps ! i) \<longleftrightarrow> fst ([(''id'', PInt 7), (''name'', PStr ''x''), (''note'', PNone)] ! i) = ''id'')"
    by auto
  from ps(2) obtain a b c where abc: "ps = [a, b, c]"
    by (auto simp: length_Suc_conv numeral_3_eq_3)
  from each have "a = \<lparr>property_name = ''id'', data_type = ''int'', is_primary_key = True\<rparr>"
    "b = \<lparr>property_name = ''name'', data_type = ''str'', is_primary_key = False\<rparr>"
    "c = \<lparr>property_name = ''note'', data_type = ''unknown'', is_primary_key = False\<rparr>"
    unfolding abc by (auto simp: numeral_3_eq_3 less_Suc_eq)
  with ps(1) abc demo_props_A m show ?thesis by simp
qed

text \<open>The definitions that running the extractor on the example executor unfolds.\<close>

lemmas demo_queries =
  demo_db_def labels_query_def rel_types_query_def node_props_query_def node_count_query_def
  rel_pattern_query_def rel_props_query_def rel_count_query_def sample_query_def
  indexes_query_def constraints_query_def procedures_query_def version_query_def
  db_name_query_def size_query_def nl_def SAMPLE_LIMIT_def digit_char_def




lemma list_all2_map_eq:
  "list_all2 (\<lambda>x y. g y = x) xs ys \<Longrightarrow> map g ys = xs"
  by (induction rule: list_all2_induct) simp_all

lemma list_all2_right_witness:
  "list_all2 P xs ys \<Longrightarrow> y \<in> set ys \<Longrightarrow> \<exists>x\<in>set xs. P x y"
  by (induction rule: list_all2_induct) auto

lemma get_node_label: "get_node db L = Inr n \<Longrightarrow> label n = L"
  by (auto simp: get_node_def ebind_Inr)

lemma get_node_empty:
  assumes "execute_query db (node_props_query L) [] = Inr []"
      and "execute_single_result db (node_count_query L) [] = Inr (Some row)"
      and "map_of row ''count'' = Some (Val (PInt 0))"
  shows "get_node db L = Inr \<lparr>label = L, node_count = Val (PInt 0), properties = []\<rparr>"
proof -
  from assms(3) have "row \<noteq> []" by auto
  with assms show ?thesis
    by (simp add: get_node_def get_node_properties_def getitem_def)
qed

lemma get_nodes_each:
  assumes "get_nodes db = Inr ns"
  shows "\<exists>ls. get_node_labels db = Inr ls \<and> list_all2 (\<lambda>L n. get_node db L = Inr n) ls ns"
  using assms by (auto simp: get_nodes_def ebind_Inr dest: emap_Inr)

lemma get_relationship_Some:
  assumes "get_relationship db T = Inr (Some r)"
  shows "rel_type r = T
         \<and> (\<exists>d. execute_single_result db (rel_pattern_query T) [] = Inr (Some d) \<and> d \<noteq> [])"
  using assms
  by (auto simp: get_relationship_def relationship_entry_def ebind_Inr
           split: option.splits if_splits)

lemma somes_set: "r \<in> set (somes xs) \<longleftrightarrow> Some r \<in> set xs"
  by (induction xs rule: somes.induct) auto

lemma get_relationships_each:
  assumes "get_relationships db = Inr rs" and "r \<in> set rs"
  shows "\<exists>T. get_relationship db T = Inr (Some r)"
proof -
  from assms(1) obtain ts found where
    "emap (get_relationship db) ts = Inr found" and rs: "rs = somes found"
    by (auto simp: get_relationships_def ebind_Inr)
  then have "list_all2 (\<lambda>T y. get_relationship db T = Inr y) ts found"
    by (auto dest: emap_Inr)
  moreover from assms(2) rs have "Some r \<in> set found"
    by (simp add: somes_set)
  ultimately show ?thesis
    by (auto dest: list_all2_right_witness)
qed

lemma get_nodes_labels:
  assumes "get_nodes db = Inr ns"
  shows "\<exists>ls. get_node_labels db = Inr ls \<and> map label ns = ls"
proof -
  from get_nodes_each [OF assms] obtain ls where
    ls: "get_node_labels db = Inr ls" and each: "list_all2 (\<lambda>L n. get_node db L = Inr n) ls ns"
    by blast
  from each have "list_all2 (\<lambda>L n. label n = L) ls ns"
    by (rule list_all2_mono) (simp add: get_node_label)
  then have "map label ns = ls" by (rule list_all2_map_eq)
  with ls show ?thesis by simp
qed

lemma get_nodes_empty_entry:
  assumes g: "get_nodes db = Inr ns"
      and p: "execute_query db (node_props_query L) [] = Inr []"
      and c: "execute_single_result db (node_count_query L) [] = Inr (Some row)"
      and z: "map_of row ''count'' = Some (Val (PInt 0))"
      and n: "n \<in> set ns" and l: "label n = L"
  shows "n = \<lparr>label = L, node_count = Val (PInt 0), properties = []\<rparr>"
proof -
  from get_nodes_each [OF g] obtain ls where
    each: "list_all2 (\<lambda>L n. get_node db L = Inr n) ls ns"
    by blast
  from list_all2_right_witness [OF each n] obtain L' where "get_node db L' = Inr n"
    by blast
  moreover from this have "label n = L'" by (rule get_node_label)
  ultimately have "get_node db L = Inr n" using l by simp
  with get_node_empty [OF p c z] show ?thesis by simp
qed

text \<open>
  Claim C3. When \<^verbatim>\<open>get_nodes\<close> returns, its list has one entry for each label that the label
  query returned, in the same order; for a label with no entity (its count is 0 and its
  property query returns no row) that entry is there, with \<^verbatim>\<open>node_count\<close> 0 and an empty
  property list. When \<^verbatim>\<open>get_relationships\<close> returns, a relationship type whose pattern
  query returns no row has no entry in its list at all.
\<close>

theorem empty_label_kept_empty_type_dropped:
  "(get_nodes db = Inr ns \<longrightarrow>
      (\<exists>ls. get_node_labels db = Inr ls \<and> map label ns = ls)
      \<and> (\<forall>L row. execute_query db (node_props_query L) [] = Inr []
                  \<and> execute_single_result db (node_count_query L) [] = Inr (Some row)
                  \<and> map_of row ''count'' = Some (Val (PInt 0))
            \<longrightarrow> (\<forall>n\<in>set ns. label n = L
                   \<longrightarrow> n = \<lparr>label = L, node_count = Val (PInt 0), properties = []\<rparr>)
                \<and> (\<forall>ls. get_node_labels db = Inr ls \<and> L \<in> set ls
                   \<longrightarrow> \<lparr>label = L, node_count = Val (PInt 0), properties = []\<rparr> \<in> set ns)))
   \<and> (get_relationships db = Inr rs \<longrightarrow>
        (\<forall>T. execute_single_result db (rel_pattern_query T) [] = Inr None
              \<longrightarrow> T \<notin> rel_type ` set rs))"
proof (intro conjI impI allI ballI)
  assume "get_nodes db = Inr ns"
  then show "\<exists>ls. get_node_labels db = Inr ls \<and> map label ns = ls"
    by (rule get_nodes_labels)
next
  fix L row n
  assume "get_nodes db = Inr ns"
    and "execute_query db (node_props_query L) [] = Inr []
         \<and> execute_single_result db (node_count_query L) [] = Inr (Some row)
         \<and> map_of row ''count'' = Some (Val (PInt 0))"
    and "n \<in> set ns" and "label n = L"
  then show "n = \<lparr>label = L, node_count = Val (PInt 0), properties = []\<rparr>"
    by (elim conjE) (rule get_nodes_empty_entry)
next
  fix L row ls
  assume g: "get_nodes db = Inr ns"
    and z: "execute_query db (node_props_query L) [] = Inr []
            \<and> execute_single_result db (node_count_query L) [] = Inr (Some row)
            \<and> map_of row ''count'' = Some (Val (PInt 0))"
    and a: "get_node_labels db = Inr ls \<and> L \<in> set ls"
  from get_nodes_labels [OF g] a have "L \<in> label ` set ns" by auto
  then obtain n where n: "n \<in> set ns" and l: "label n = L" by auto
  from z have "n = \<lparr>label = L, node_count = Val (PInt 0), properties = []\<rparr>"
    by (elim conjE) (rule get_nodes_empty_entry [OF g _ _ _ n l])
  with n show "\<lparr>label = L, node_count = Val (PInt 0), properties = []\<rparr> \<in> set ns" by simp
next
  fix T
  assume g: "get_relationships db = Inr rs"
    and z: "execute_single_result db (rel_pattern_query T) [] = Inr None"
  show "T \<notin> rel_type ` set rs"
  proof
    assume "T \<in> rel_type ` set rs"
    then obtain r where r: "r \<in> set rs" and t: "rel_type r = T" by auto
    from get_relationships_each [OF g r] obtain T' where
      "get_relationship db T' = Inr (Some r)" by blast
    from get_relationship_Some [OF this] t z show False by auto
  qed
qed

lemma demo_nodes:
  "get_nodes demo_db
     = Inr [\<lparr>label = ''A'', node_count = Val (PInt 2),
            properties = [\<lparr>property_name = ''id'', data_type = ''int'', is_primary_key = True\<rparr>,
                          \<lparr>property_name = ''name'', data_type = ''str'', is_primary_key = False\<rparr>,
                          \<lparr>property_name = ''note'', data_type = ''unknown'', is_primary_key = False\<rparr>]\<rparr>,
           \<lparr>label = ''B'', node_count = Val (PInt 0), properties = []\<rparr>]"
  by (simp add: get_nodes_def get_node_labels_def get_node_def get_node_properties_def
        getitem_def describe_property_def demo_queries)

lemma demo_relationships:
  "get_relationships demo_db
     = Inr [\<lparr>rel_type = ''S'', start_labels = [''A''], end_labels = [''A''],
             relationship_count = Val (PInt 1), rel_properties = []\<rparr>]"
  by (simp add: get_relationships_def get_relationship_types_def get_relationship_def
        relationship_entry_def getitem_def demo_queries)

text \<open>
  On the example, label \<^verbatim>\<open>B\<close> has no node and is listed with count 0 and no property; type
  \<^verbatim>\<open>R\<close> has no edge and is not listed, type \<^verbatim>\<open>S\<close> is.
\<close>

theorem empty_label_kept_empty_type_dropped_witness:
  "get_nodes demo_db
     = Inr [\<lparr>label = ''A'', node_count = Val (PInt 2),
            properties = [\<lparr>property_name = ''id'', data_type = ''int'', is_primary_key = True\<rparr>,
                          \<lparr>property_name = ''name'', data_type = ''str'', is_primary_key = False\<rparr>,
                          \<lparr>property_name = ''note'', data_type = ''unknown'', is_primary_key = False\<rparr>]\<rparr>,
           \<lparr>label = ''B'', node_count = Val (PInt 0), properties = []\<rparr>]
   \<and> get_node_labels demo_db = Inr [''A'', ''B'']
   \<and> execute_query demo_db (node_props_query ''B'') [] = Inr []
   \<and> execute_single_result demo_db (node_count_query ''B'') []
       = Inr (Some [(''count'', Val (PInt 0))])
   \<and> get_relationships demo_db
       = Inr [\<lparr>rel_type = ''S'', start_labels = [''A''], end_labels = [''A''],
               relationship_count = Val (PInt 1), rel_properties = []\<rparr>]
   \<and> execute_single_result demo_db (rel_pattern_query ''R'') [] = Inr None
   \<and> ''R'' \<notin> rel_type ` set [\<lparr>rel_type = ''S'', start_labels = [''A''], end_labels = [''A''],
               relationship_count = Val (PInt 1), rel_properties = []\<rparr>]"
proof -
  let ?ns = "[\<lparr>label = ''A'', node_count = Val (PInt 2),
            properties = [\<lparr>property_name = ''id'', data_type = ''int'', is_primary_key = True\<rparr>,
                          \<lparr>property_name = ''name'', data_type = ''str'', is_primary_key = False\<rparr>,
                          \<lparr>property_name = ''note'', data_type = ''unknown'', is_primary_key = False\<rparr>]\<rparr>,
           \<lparr>label = ''B'', node_count = Val (PInt 0), properties = []\<rparr>]"
  let ?rs = "[\<lparr>rel_type = ''S'', start_labels = [''A''], end_labels = [''A''],
               relationship_count = Val (PInt 1), rel_properties = []\<rparr>]"
  have p: "execute_query demo_db (node_props_query ''B'') [] = Inr []"
    by (simp add: demo_queries)
  have c: "execute_single_result demo_db (node_count_query ''B'') []
       = Inr (Some [(''count'', Val (PInt 0))])"
    by (simp add: demo_queries)
  have r: "execute_single_result demo_db (rel_pattern_query ''R'') [] = Inr None"
    by (simp add: demo_queries)
  note t = empty_label_kept_empty_type_dropped [of demo_db ?ns ?rs]
  have "\<exists>ls. get_node_labels demo_db = Inr ls \<and> map label ?ns = ls"
    by (rule conjunct1 [OF mp [OF conjunct1 [OF t] demo_nodes]])
  then have labels: "get_node_labels demo_db = Inr [''A'', ''B'']"
    by simp
  have "\<forall>T. execute_single_result demo_db (rel_pattern_query T) [] = Inr None
              \<longrightarrow> T \<notin> rel_type ` set ?rs"
    by (rule mp [OF conjunct2 [OF t] demo_relationships])
  then have "execute_single_result demo_db (rel_pattern_query ''R'') [] = Inr None
              \<longrightarrow> ''R'' \<notin> rel_type ` set ?rs"
    by (rule spec)
  then have absent: "''R'' \<notin> rel_type ` set ?rs"
    using r by (rule mp)
  from demo_nodes labels p c demo_relationships r absent show ?thesis
    by (intro conjI)
qed

lemma sample_node_fst:
  "fst (sample_node db acc n)
     = AList.update (label n) (case sampled db (label n) of Inr d \<Rightarrow> d | Inl e \<Rightarrow> [])
         (fst acc)"
  by (simp add: sample_node_def split: sum.split)


lemma foldl_sample_keys:
  "fst ` set (fst (foldl (sample_node db) acc ns)) = fst ` set (fst acc) \<union> label ` set ns"
  by (induction ns arbitrary: acc) (auto simp: sample_node_fst dom_update)

lemma foldl_sample_distinct:
  "distinct (map fst (fst acc)) \<Longrightarrow> distinct (map fst (fst (foldl (sample_node db) acc ns)))"
  by (induction ns arbitrary: acc) (simp_all add: sample_node_fst distinct_update)

lemma foldl_sample_lookup:
  "n \<in> set ns \<Longrightarrow>
   map_of (fst (foldl (sample_node db) acc ns)) (label n)
     = Some (case sampled db (label n) of Inr d \<Rightarrow> d | Inl e \<Rightarrow> [])"
proof (induction ns rule: rev_induct)
  case Nil
  then show ?case by simp
next
  case (snoc x xs)
  show ?case
  proof (cases "label x = label n")
    case True
    then show ?thesis by (simp add: sample_node_fst update_conv')
  next
    case False
    with snoc.prems have "n \<in> set xs" by auto
    with snoc.IH False show ?thesis by (simp add: sample_node_fst update_conv')
  qed
qed


lemma sampled_query_fails:
  "execute_query db (sample_query L) [] = Inl e \<Longrightarrow> sampled db L = Inl e"
  by (simp add: sampled_def)

text \<open>
  Claim C10. The keys of the map that \<^verbatim>\<open>get_samples\<close> returns are exactly the labels of the
  nodes it was given, each once. Every label has an entry: what the \<^verbatim>\<open>try\<close> block built for
  it, or the empty list when the block raised; so a label whose sampling query fails maps to
  the empty list.
\<close>

theorem samples_keys_are_labels:
  "fst ` set (fst (get_samples db ns)) = label ` set ns
   \<and> distinct (map fst (fst (get_samples db ns)))
   \<and> (\<forall>n\<in>set ns. map_of (fst (get_samples db ns)) (label n)
                     = Some (case sampled db (label n) of Inr d \<Rightarrow> d | Inl e \<Rightarrow> []))
   \<and> (\<forall>n\<in>set ns. \<forall>e. execute_query db (sample_query (label n)) [] = Inl e
                     \<longrightarrow> map_of (fst (get_samples db ns)) (label n) = Some [])"
proof -
  have k: "fst ` set (fst (get_samples db ns)) = label ` set ns"
    by (simp add: get_samples_def foldl_sample_keys)
  have d: "distinct (map fst (fst (get_samples db ns)))"
    by (simp add: get_samples_def foldl_sample_distinct)
  have l: "\<forall>n\<in>set ns. map_of (fst (get_samples db ns)) (label n)
                     = Some (case sampled db (label n) of Inr d \<Rightarrow> d | Inl e \<Rightarrow> [])"
    by (simp add: get_samples_def foldl_sample_lookup)
  have f: "\<forall>n\<in>set ns. \<forall>e. execute_query db (sample_query (label n)) [] = Inl e
                     \<longrightarrow> map_of (fst (get_samples db ns)) (label n) = Some []"
  proof (intro ballI allI impI)
    fix n e
    assume n: "n \<in> set ns" and q: "execute_query db (sample_query (label n)) [] = Inl e"
    from q have "sampled db (label n) = Inl e" by (rule sampled_query_fails)
    with l n show "map_of (fst (get_samples db ns)) (label n) = Some []" by simp
  qed
  from k d l f show ?thesis by (intro conjI)
qed

lemma demo_sample_A:
  "execute_query demo_db (sample_query ''A'') [] = Inl (DbError ''unsupported'')"
  by (simp add: demo_queries)

text \<open>On the example, sampling \<^verbatim>\<open>A\<close> fails: the keys are \<^verbatim>\<open>A\<close> and \<^verbatim>\<open>B\<close>, and \<^verbatim>\<open>A\<close> maps to the empty list.\<close>

theorem samples_keys_are_labels_witness:
  "execute_query demo_db (sample_query ''A'') [] = Inl (DbError ''unsupported'')
   \<and> fst ` set (fst (get_samples demo_db
        [\<lparr>label = ''A'', node_count = Val (PInt 2), properties = []\<rparr>,
         \<lparr>label = ''B'', node_count = Val (PInt 0), properties = []\<rparr>])) = {''A'', ''B''}
   \<and> map_of (fst (get_samples demo_db
        [\<lparr>label = ''A'', node_count = Val (PInt 2), properties = []\<rparr>,
         \<lparr>label = ''B'', node_count = Val (PInt 0), properties = []\<rparr>])) ''A'' = Some []"
proof -
  note t = samples_keys_are_labels [of demo_db
        "[\<lparr>label = ''A'', node_count = Val (PInt 2), properties = []\<rparr>,
         \<lparr>label = ''B'', node_count = Val (PInt 0), properties = []\<rparr>]"]
  from t have "fst ` set (fst (get_samples demo_db
        [\<lparr>label = ''A'', node_count = Val (PInt 2), properties = []\<rparr>,
         \<lparr>label = ''B'', node_count = Val (PInt 0), properties = []\<rparr>]))
      = label ` set [\<lparr>label = ''A'', node_count = Val (PInt 2), properties = []\<rparr>,
         \<lparr>label = ''B'', node_count = Val (PInt 0), properties = []\<rparr>]"
    by (rule conjunct1)
  then have keys: "fst ` set (fst (get_samples demo_db
        [\<lparr>label = ''A'', node_count = Val (PInt 2), properties = []\<rparr>,
         \<lparr>label = ''B'', node_count = Val (PInt 0), properties = []\<rparr>])) = {''A'', ''B''}"
    by simp
  from t have "\<forall>n\<in>set [\<lparr>label = ''A'', node_count = Val (PInt 2), properties = []\<rparr>,
         \<lparr>label = ''B'', node_count = Val (PInt 0), properties = []\<rparr>].
      \<forall>e. execute_query demo_db (sample_query (label n)) [] = Inl e
        \<longrightarrow> map_of (fst (get_samples demo_db
        [\<lparr>label = ''A'', node_count = Val (PInt 2), properties = []\<rparr>,
         \<lparr>label = ''B'', node_count = Val (PInt 0), properties = []\<rparr>])) (label n) = Some []"
    by (elim conjE)
  then have "\<forall>e. execute_query demo_db (sample_query ''A'') [] = Inl e
        \<longrightarrow> map_of (fst (get_samples demo_db
        [\<lparr>label = ''A'', node_count = Val (PInt 2), properties = []\<rparr>,
         \<lparr>label = ''B'', node_count = Val (PInt 0), properties = []\<rparr>])) ''A'' = Some []"
    by simp
  with demo_sample_A have "map_of (fst (get_samples demo_db
        [\<lparr>label = ''A'', node_count = Val (PInt 2), properties = []\<rparr>,
         \<lparr>label = ''B'', node_count = Val (PInt 0), properties = []\<rparr>])) ''A'' = Some []"
    by blast
  with demo_sample_A keys show ?thesis by (intro conjI)
qed







end
